theory Spec2Isabelle
  imports Complex_Main
begin

section \<open>Data model of \<open>src/components/ForceTest.tsx\<close>\<close>

text \<open>
  JavaScript numbers are modelled as real numbers (rounding and overflow of doubles are
  not modelled). The one place where the component can produce a value that is not a
  finite number out of finite inputs is the division \<open>i / segments\<close> of the path
  generator; its results have the type \<open>number\<close> below.

  The entries of \<open>placeholderData.nodes\<close> carry \<open>id\<close>, \<open>title\<close> and \<open>image\<close> only
  (\<open>NodeData\<close>). The effect assigns \<open>x\<close> and \<open>y\<close> to every node before anything reads
  them, so a simulation node (\<open>Node\<close>) has a position; \<open>vx\<close> and \<open>vy\<close> stay optional, as
  the source reads them through \<open>node.vx || 0\<close>.
\<close>

record NodeData =
  node_id :: string
  title :: string
  image_href :: string

record Node = NodeData +
  x :: real
  y :: real
  vx :: "real option"
  vy :: "real option"

text \<open>A link refers to its two node objects; the model keeps their indices in \<open>nodes\<close>.\<close>

record Link =
  source :: nat
  target :: nat

text \<open>The type \<open>Link & { segmentOffsets: [number, number][] }\<close> of \<open>ticked\<close>.\<close>

record WavyLink = Link +
  segmentOffsets :: "(real \<times> real) list"

record Config =
  width :: real
  height :: real
  nodeSize :: real
  radiusFactor :: real
  collisionPadding :: real
  snapStrength :: real
  jitterStrength :: real
  numSegments :: int

definition placeholderData :: "NodeData list" where
  "placeholderData =
     [\<lparr>node_id = ''n0'', title = ''Node 0'', image_href = ''https://placehold.co/60x60''\<rparr>,
      \<lparr>node_id = ''n1'', title = ''Node 1'', image_href = ''https://placehold.co/60x60''\<rparr>,
      \<lparr>node_id = ''n2'', title = ''Node 2'', image_href = ''https://placehold.co/60x60''\<rparr>,
      \<lparr>node_id = ''n3'', title = ''Node 3'', image_href = ''https://placehold.co/60x60''\<rparr>,
      \<lparr>node_id = ''n4'', title = ''Node 4'', image_href = ''https://placehold.co/60x60''\<rparr>]"

definition config :: Config where
  "config =
     \<lparr>width = 1200, height = 1000, nodeSize = 60, radiusFactor = 4 / 10,
      collisionPadding = 5, snapStrength = 3 / 100, jitterStrength = 1 / 100,
      numSegments = 6\<rparr>"

section \<open>The link path generator\<close>

text \<open>
  A JavaScript number that may fail to be finite: \<open>NotFinite\<close> stands for \<open>NaN\<close> and the
  two infinities. Every sum and product with an operand that is not finite is not finite
  again, and a division by zero is never finite (\<open>0 / 0\<close> is \<open>NaN\<close>, \<open>a / 0\<close> is an
  infinity otherwise).
\<close>

datatype number = Finite real | NotFinite

fun num_add :: "number \<Rightarrow> number \<Rightarrow> number" where
  "num_add (Finite a) (Finite b) = Finite (a + b)"
| "num_add _ _ = NotFinite"

fun num_mul :: "number \<Rightarrow> number \<Rightarrow> number" where
  "num_mul (Finite a) (Finite b) = Finite (a * b)"
| "num_mul _ _ = NotFinite"

definition num_div :: "real \<Rightarrow> real \<Rightarrow> number" where
  "num_div a b = (if b = 0 then NotFinite else Finite (a / b))"

text \<open>
  The curve factories of d3-shape that matter here: \<open>d3.line()\<close> joins its points with
  \<open>curveLinear\<close> unless \<open>.curve\<close> selects another one. The path string itself is
  produced by d3; the model keeps the request handed to it.
\<close>

datatype curve_factory = curveLinear | curveCardinal

record line_request =
  curve :: curve_factory
  points :: "(number \<times> number) list"

text \<open>The body of the \<open>for\<close> loop of \<open>multiSegmentWavyPathStable\<close>, for one \<open>i\<close>.\<close>

definition waypoint ::
  "Node \<Rightarrow> Node \<Rightarrow> (real \<times> real) list \<Rightarrow> int \<Rightarrow> nat \<Rightarrow> number \<times> number" where
  "waypoint src tgt offs segments i =
     (let t = num_div (real i) (real_of_int segments);
          (offsetX, offsetY) = offs ! i
      in (num_add (num_add (Finite (x src)) (num_mul (Finite (x tgt - x src)) t))
            (Finite offsetX),
          num_add (num_add (Finite (y src)) (num_mul (Finite (y tgt - y src)) t))
            (Finite offsetY)))"

text \<open>
  \<open>for (let i = 0; i <= segments; i++)\<close> with \<open>segments = segmentOffsets.length - 1\<close>
  visits exactly the indices of \<open>segmentOffsets\<close>, in order.
\<close>

definition multiSegmentWavyPathStable ::
  "Node \<Rightarrow> Node \<Rightarrow> (real \<times> real) list \<Rightarrow> line_request" where
  "multiSegmentWavyPathStable src tgt offs =
     (let segments = int (length offs) - 1
      in \<lparr>curve = curveCardinal,
          points = map (waypoint src tgt offs segments) [0..<nat (segments + 1)]\<rparr>)"

section \<open>The effect of \<open>NecklaceGraph\<close>\<close>

definition nodeRadius :: "Config \<Rightarrow> real" where
  "nodeRadius cfg = nodeSize cfg / 2"

definition radius :: "Config \<Rightarrow> real" where
  "radius cfg = min (width cfg) (height cfg) * radiusFactor cfg"

text \<open>Compute circular targets.\<close>

definition targets :: "Config \<Rightarrow> 'a list \<Rightarrow> (real \<times> real) list" where
  "targets cfg ns =
     (let n = length ns
      in map (\<lambda>i. let angle = (real i / real n) * 2 * pi
                  in (width cfg / 2 + radius cfg * cos angle,
                      height cfg / 2 + radius cfg * sin angle))
           [0..<n])"

text \<open>Build links.\<close>

definition build_links :: "'a list \<Rightarrow> Link list" where
  "build_links ns =
     (let n = length ns
      in map (\<lambda>i. \<lparr>source = i, target = (i + 1) mod n\<rparr>) [0..<n])"

text \<open>Initialize positions: node \<open>i\<close> is placed at \<open>targets[i]\<close>; no velocity is assigned.\<close>

definition initialize_positions :: "(real \<times> real) list \<Rightarrow> NodeData list \<Rightarrow> Node list" where
  "initialize_positions ts ns =
     map (\<lambda>i. \<lparr>node_id = node_id (ns ! i), title = title (ns ! i),
               image_href = image_href (ns ! i),
               x = fst (ts ! i), y = snd (ts ! i), vx = None, vy = None\<rparr>)
       [0..<length ns]"

text \<open>
  \<open>Math.random\<close> is modelled by the sequence \<open>rnd\<close> of the values its successive calls
  return, and a counter of the calls made so far. \<open>Array.from({ length: k }, f)\<close> calls
  \<open>f\<close> for the indices \<open>0, ..., k - 1\<close> in order; each call draws \<open>offsetX\<close>, then
  \<open>offsetY\<close>.
\<close>

definition maxOffset :: real where
  "maxOffset = 20"

fun random_offsets :: "(nat \<Rightarrow> real) \<Rightarrow> nat \<Rightarrow> nat \<Rightarrow> (real \<times> real) list" where
  "random_offsets rnd 0 c = []"
| "random_offsets rnd (Suc k) c =
     ((rnd c - 1 / 2) * maxOffset, (rnd (c + 1) - 1 / 2) * maxOffset)
       # random_offsets rnd k (c + 2)"

text \<open>
  \<open>links.forEach\<close>: every link gets \<open>segments + 1\<close> offsets; a length that is not
  positive gives the empty array.
\<close>

fun attach_offsets :: "(nat \<Rightarrow> real) \<Rightarrow> int \<Rightarrow> Link list \<Rightarrow> nat \<Rightarrow> WavyLink list" where
  "attach_offsets rnd segments [] c = []"
| "attach_offsets rnd segments (l # ls) c =
     (let k = nat (segments + 1)
      in \<lparr>source = source l, target = target l,
           segmentOffsets = random_offsets rnd k c\<rparr>
         # attach_offsets rnd segments ls (c + 2 * k))"

text \<open>
  What is drawn: the \<open>x\<close>, \<open>y\<close> attributes of the images and of the labels, and the
  \<open>d\<close> attribute of the link paths. Labels and paths are appended without these
  attributes (\<open>None\<close>); the listener of the \<open>"tick"\<close> event writes them.
\<close>

record View =
  image_xy :: "(real \<times> real) list"
  label_xy :: "(real \<times> real) list option"
  link_d :: "line_request list option"

text \<open>
  The state of the d3 simulation, the data it works on and the drawing. What d3-force
  does on \<open>d3.forceSimulation(nodes)\<close> belongs to the library, not to the repository: a
  node whose \<open>vx\<close> or \<open>vy\<close> is not a number gets the velocity \<open>(0, 0)\<close>, a node with a
  position keeps it, \<open>alphaTarget\<close> is \<open>0\<close>, and the timer that drives the ticks is
  started.
\<close>

record Simulation =
  nodes :: "Node list"
  links :: "WavyLink list"
  alpha :: real
  alphaDecay :: real
  alphaTarget :: real
  running :: bool
  view :: View

definition forceSimulation_nodes :: "Node list \<Rightarrow> Node list" where
  "forceSimulation_nodes ns =
     map (\<lambda>node. if vx node = None \<or> vy node = None
                 then node\<lparr>vx := Some 0, vy := Some 0\<rparr> else node) ns"

definition start :: "Config \<Rightarrow> NodeData list \<Rightarrow> (nat \<Rightarrow> real) \<Rightarrow> Simulation" where
  "start cfg ns rnd =
     (let ts = targets cfg ns;
          ls = build_links ns;
          positioned = initialize_positions ts ns;
          wavy = attach_offsets rnd (numSegments cfg) ls 0;
          simulated = forceSimulation_nodes positioned
      in \<lparr>nodes = simulated, links = wavy,
           alpha = 1, alphaDecay = 1 / 1000, alphaTarget = 0, running = True,
           view = \<lparr>image_xy = map (\<lambda>d. (x d - nodeRadius cfg, y d - nodeRadius cfg)) simulated,
                    label_xy = None, link_d = None\<rparr>\<rparr>)"

text \<open>\<open>node.vx || 0\<close>: a missing velocity counts as \<open>0\<close>.\<close>

definition or0 :: "real option \<Rightarrow> real" where
  "or0 v = (case v of None \<Rightarrow> 0 | Some r \<Rightarrow> r)"

text \<open>
  The force registered as \<open>"snap"\<close>. d3 calls a force with the current \<open>alpha\<close>; the
  closure takes no argument. \<open>targets\<close> has one entry per node (both are built from the
  same array), so \<open>zip\<close> pairs \<open>nodes[i]\<close> with \<open>targets[i]\<close> for every \<open>i\<close>.
\<close>

definition snap_node :: "real \<Rightarrow> Node \<times> (real \<times> real) \<Rightarrow> Node" where
  "snap_node strength nt =
     (case nt of (node, tx, ty) \<Rightarrow>
        node\<lparr>vx := Some (or0 (vx node) + (tx - x node) * strength),
             vy := Some (or0 (vy node) + (ty - y node) * strength)\<rparr>)"

definition snap :: "(real \<times> real) list \<Rightarrow> real \<Rightarrow> real \<Rightarrow> Node list \<Rightarrow> Node list" where
  "snap ts strength a ns = map (snap_node strength) (zip ns ts)"

text \<open>
  The parts of a tick that d3 owns are parameters: the three built-in forces (each takes
  its configuration, then \<open>alpha\<close>, and updates the nodes), the integration of the
  velocities, the cooling of \<open>alpha\<close> and the threshold \<open>alphaMin\<close> below which the timer
  stops.
\<close>

record D3 =
  forceManyBody :: "real \<Rightarrow> real \<Rightarrow> Node list \<Rightarrow> Node list"
  forceCenter :: "real \<Rightarrow> real \<Rightarrow> real \<Rightarrow> Node list \<Rightarrow> Node list"
  forceCollide :: "real \<Rightarrow> real \<Rightarrow> Node list \<Rightarrow> Node list"
  integrate :: "Node list \<Rightarrow> Node list"
  cool :: "real \<Rightarrow> real \<Rightarrow> real \<Rightarrow> real"
  alphaMin :: real

text \<open>
  One tick of the simulation: \<open>alpha\<close> cools, the forces run in the order of their
  registration (charge, center, collision, snap), then d3 integrates. The closure of the
  snap force holds the \<open>targets\<close> computed by the effect, which depend on the
  configuration and the number of nodes only.
\<close>

definition tick :: "D3 \<Rightarrow> Config \<Rightarrow> Simulation \<Rightarrow> Simulation" where
  "tick d3 cfg s =
     (let a = cool d3 (alpha s) (alphaTarget s) (alphaDecay s);
          ns1 = forceManyBody d3 (- 50) a (nodes s);
          ns2 = forceCenter d3 (width cfg / 2) (height cfg / 2) a ns1;
          ns3 = forceCollide d3 (nodeRadius cfg + collisionPadding cfg) a ns2;
          ns4 = snap (targets cfg (nodes s)) (snapStrength cfg) a ns3;
          ns5 = integrate d3 ns4
      in s\<lparr>nodes := ns5, alpha := a\<rparr>)"

text \<open>
  \<open>ticked\<close>, the listener of the \<open>"tick"\<close> event: update nodes, update labels, update
  paths. It writes attributes of the drawn elements only.
\<close>

definition ticked :: "Config \<Rightarrow> Simulation \<Rightarrow> Simulation" where
  "ticked cfg s =
     s\<lparr>view :=
       \<lparr>image_xy = map (\<lambda>d. (x d - nodeRadius cfg, y d - nodeRadius cfg)) (nodes s),
        label_xy = Some (map (\<lambda>d. (x d, y d - nodeRadius cfg - 5)) (nodes s)),
        link_d = Some (map (\<lambda>d. multiSegmentWavyPathStable (nodes s ! source d)
                                   (nodes s ! target d) (segmentOffsets d)) (links s))\<rparr>\<rparr>"

text \<open>
  One step of the timer of a running simulation: a tick, the \<open>"tick"\<close> event, and the
  timer stops once \<open>alpha\<close> is below \<open>alphaMin\<close>. A stopped timer does nothing.
\<close>

definition timer_step :: "D3 \<Rightarrow> Config \<Rightarrow> Simulation \<Rightarrow> Simulation" where
  "timer_step d3 cfg s =
     (if \<not> running s then s
      else
        let s1 = ticked cfg (tick d3 cfg s)
        in s1\<lparr>running := \<not> alpha s1 < alphaMin d3\<rparr>)"

text \<open>
  The drag behaviour attached to the images. d3-drag dispatches the event types
  \<open>start\<close>, \<open>drag\<close> and \<open>end\<close>; the component registers a listener for \<open>drag\<close> and for
  \<open>end\<close> and none for \<open>start\<close>. The second argument is the index of the node \<open>d\<close> bound
  to the dragged image.
\<close>

datatype drag_event = DragStart | DragMove real real | DragEnd

fun on_drag :: "drag_event \<Rightarrow> nat \<Rightarrow> Simulation \<Rightarrow> Simulation" where
  "on_drag DragStart d s = s"
| "on_drag (DragMove ex ey) d s =
     s\<lparr>nodes := (nodes s)[d := (nodes s ! d)\<lparr>x := ex, y := ey\<rparr>]\<rparr>"
| "on_drag DragEnd d s = s\<lparr>alphaTarget := 0\<rparr>"

text \<open>What can happen after \<open>start\<close>: timer steps and drag events, in any order.\<close>

datatype event = Tick | Drag drag_event nat

fun step :: "D3 \<Rightarrow> Config \<Rightarrow> event \<Rightarrow> Simulation \<Rightarrow> Simulation" where
  "step d3 cfg Tick s = timer_step d3 cfg s"
| "step d3 cfg (Drag e d) s = on_drag e d s"

fun run :: "D3 \<Rightarrow> Config \<Rightarrow> event list \<Rightarrow> Simulation \<Rightarrow> Simulation" where
  "run d3 cfg [] s = s"
| "run d3 cfg (e # es) s = run d3 cfg es (step d3 cfg e s)"

section \<open>Concrete inputs\<close>

text \<open>A node at a given position, at rest.\<close>

definition node_at :: "real \<Rightarrow> real \<Rightarrow> Node" where
  "node_at px py =
     \<lparr>node_id = ''n'', title = ''Node'', image_href = ''https://placehold.co/60x60'',
      x = px, y = py, vx = Some 0, vy = Some 0\<rparr>"

text \<open>A run of \<open>Math.random\<close> in which every call returns \<open>0.5\<close>.\<close>

definition steady_random :: "nat \<Rightarrow> real" where
  "steady_random k = 1 / 2"

text \<open>The configuration of the component with a zero radius factor, a zero node size and
  a negative number of segments.\<close>

definition invalid_config :: Config where
  "invalid_config =
     \<lparr>width = 1200, height = 1000, nodeSize = 0, radiusFactor = 0,
      collisionPadding = 5, snapStrength = 3 / 100, jitterStrength = 1 / 100,
      numSegments = - 1\<rparr>"

text \<open>A data set with the first placeholder node only.\<close>

definition single_node :: "NodeData list" where
  "single_node =
     [\<lparr>node_id = ''n0'', title = ''Node 0'', image_href = ''https://placehold.co/60x60''\<rparr>]"

text \<open>An instance of the library parameters whose forces and integration leave the nodes
  as they are; it only serves to instantiate statements that hold for every instance.\<close>

definition inert_d3 :: D3 where
  "inert_d3 =
     \<lparr>forceManyBody = (\<lambda>strength a ns. ns),
      forceCenter = (\<lambda>cx cy a ns. ns),
      forceCollide = (\<lambda>r a ns. ns),
      integrate = (\<lambda>ns. ns),
      cool = (\<lambda>a t d. a + (t - a) * d),
      alphaMin = 1 / 1000\<rparr>"

section \<open>Circular targets\<close>

lemma length_targets: "length (targets cfg ns) = length ns"
  by (simp add: targets_def Let_def)

lemma targets_nth:
  "i < length ns \<Longrightarrow>
   targets cfg ns ! i =
     (width cfg / 2 + radius cfg * cos (real i / real (length ns) * 2 * pi),
      height cfg / 2 + radius cfg * sin (real i / real (length ns) * 2 * pi))"
  by (simp add: targets_def Let_def)

text \<open>
  C1. With \<open>n\<close> nodes, the target of node \<open>i\<close> is
  \<open>(cx + r cos (2 pi i / n), cy + r sin (2 pi i / n))\<close>, where \<open>(cx, cy)\<close> is the centre
  \<open>(width / 2, height / 2)\<close> of the canvas and \<open>r = min (width, height) * radiusFactor\<close>.
  This holds for every node index of every non-empty node list, so for every
  \<open>n \<ge> 2\<close> in particular. The scenario of the specification (five nodes, centre
  \<open>(600, 500)\<close>, radius \<open>400\<close>, an angle of 72 degrees between neighbours) is the
  instance below.
\<close>

theorem targets_on_circle:
  assumes "i < length ns"
  shows "targets cfg ns ! i =
     (width cfg / 2 + min (width cfg) (height cfg) * radiusFactor cfg
        * cos (2 * pi * real i / real (length ns)),
      height cfg / 2 + min (width cfg) (height cfg) * radiusFactor cfg
        * sin (2 * pi * real i / real (length ns)))"
proof -
  have "real i / real (length ns) * 2 * pi = 2 * pi * real i / real (length ns)"
    by (simp add: field_simps)
  then show ?thesis
    using assms by (simp only: targets_nth radius_def)
qed

theorem targets_on_circle_witness:
  "(0::nat) < length placeholderData \<and> (1::nat) < length placeholderData \<and>
   width config / 2 = 600 \<and> height config / 2 = 500 \<and>
   min (width config) (height config) * radiusFactor config = 400 \<and>
   targets config placeholderData ! 0 = (1000, 500) \<and>
   targets config placeholderData ! 1 =
     (600 + 400 * cos (72 * pi / 180), 500 + 400 * sin (72 * pi / 180))"
  using targets_on_circle [of 0 placeholderData config]
    targets_on_circle [of 1 placeholderData config]
  by (simp add: config_def placeholderData_def)

section \<open>The radial snap force\<close>

lemma snap_nth:
  "i < length ns \<Longrightarrow> length ts = length ns \<Longrightarrow>
   snap ts k a ns ! i =
     (ns ! i)\<lparr>vx := Some (or0 (vx (ns ! i)) + (fst (ts ! i) - x (ns ! i)) * k),
              vy := Some (or0 (vy (ns ! i)) + (snd (ts ! i) - y (ns ! i)) * k)\<rparr>"
  by (simp add: snap_def snap_node_def split_beta)

text \<open>
  C2. The snap force adds exactly \<open>snapStrength * (target - position)\<close> to the velocity
  of every node, whatever the \<open>alpha\<close> it is called with (the right-hand sides do not
  mention \<open>a\<close>); a node that sits on its target keeps its velocity.
\<close>

theorem snap_adds_spring:
  assumes "i < length ns" and "length ts = length ns"
  shows "or0 (vx (snap ts k a ns ! i)) = or0 (vx (ns ! i)) + k * (fst (ts ! i) - x (ns ! i)) \<and>
         or0 (vy (snap ts k a ns ! i)) = or0 (vy (ns ! i)) + k * (snd (ts ! i) - y (ns ! i)) \<and>
         ((x (ns ! i), y (ns ! i)) = ts ! i \<longrightarrow>
            or0 (vx (snap ts k a ns ! i)) = or0 (vx (ns ! i)) \<and>
            or0 (vy (snap ts k a ns ! i)) = or0 (vy (ns ! i)))"
  using assms by (auto simp: snap_nth or0_def mult.commute dest: sym)

theorem snap_adds_spring_witness:
  "(0::nat) < length [node_at 0 0, node_at 7 9] \<and>
   length [(10, 20), (7, 9)] = length [node_at 0 0, node_at 7 9] \<and>
   or0 (vx (snap [(10, 20), (7, 9)] (3 / 100) 1 [node_at 0 0, node_at 7 9] ! 0)) = 3 / 10 \<and>
   or0 (vx (snap [(10, 20), (7, 9)] (3 / 100) (1 / 2) [node_at 0 0, node_at 7 9] ! 0)) = 3 / 10 \<and>
   or0 (vy (snap [(10, 20), (7, 9)] (3 / 100) 1 [node_at 0 0, node_at 7 9] ! 0)) = 6 / 10 \<and>
   (x ([node_at 0 0, node_at 7 9] ! 1), y ([node_at 0 0, node_at 7 9] ! 1)) =
     [(10, 20), (7, 9)] ! 1 \<and>
   or0 (vx (snap [(10, 20), (7, 9)] (3 / 100) 1 [node_at 0 0, node_at 7 9] ! 1)) = 0 \<and>
   or0 (vy (snap [(10, 20), (7, 9)] (3 / 100) 1 [node_at 0 0, node_at 7 9] ! 1)) = 0"
  using snap_adds_spring [of 0 "[node_at 0 0, node_at 7 9]" "[(10, 20), (7, 9)]" "3 / 100" 1]
    snap_adds_spring [of 0 "[node_at 0 0, node_at 7 9]" "[(10, 20), (7, 9)]" "3 / 100" "1 / 2"]
    snap_adds_spring [of 1 "[node_at 0 0, node_at 7 9]" "[(10, 20), (7, 9)]" "3 / 100" 1]
  by (simp add: node_at_def or0_def)

section \<open>Link paths\<close>

lemma waypoint_finite:
  "segments \<noteq> 0 \<Longrightarrow>
   waypoint src tgt offs segments i =
     (Finite (x src + (x tgt - x src) * (real i / real_of_int segments) + fst (offs ! i)),
      Finite (y src + (y tgt - y src) * (real i / real_of_int segments) + snd (offs ! i)))"
  by (simp add: waypoint_def num_div_def split_beta)

text \<open>
  C3. With \<open>segments = segmentOffsets.length - 1 \<ge> 1\<close>, the path request has
  \<open>segments + 1\<close> waypoints, waypoint \<open>i\<close> is the point of the segment from the source
  to the target at \<open>t = i / segments\<close> moved by the \<open>i\<close>-th offset, and the waypoints
  are joined by the cardinal spline.
\<close>

theorem wavy_path_waypoints:
  assumes "2 \<le> length offs" and "segments = length offs - 1"
  shows "curve (multiSegmentWavyPathStable src tgt offs) = curveCardinal \<and>
         length (points (multiSegmentWavyPathStable src tgt offs)) = segments + 1 \<and>
         (\<forall>i \<le> segments.
            points (multiSegmentWavyPathStable src tgt offs) ! i =
              (Finite (x src + (x tgt - x src) * (real i / real segments) + fst (offs ! i)),
               Finite (y src + (y tgt - y src) * (real i / real segments) + snd (offs ! i))))"
proof -
  have s: "int (length offs) - 1 = int segments" and nz: "int segments \<noteq> 0"
    and n: "nat (int segments + 1) = segments + 1"
    using assms by auto
  show ?thesis
    by (simp add: multiSegmentWavyPathStable_def Let_def s n waypoint_finite [OF nz] del: upt_Suc)
qed

theorem wavy_path_waypoints_witness:
  "(2::nat) \<le> length [(1, 2), (3, 4), (5::real, 6::real)] \<and>
   (2::nat) = length [(1, 2), (3, 4), (5::real, 6::real)] - 1 \<and>
   multiSegmentWavyPathStable (node_at 0 0) (node_at 10 20) [(1, 2), (3, 4), (5, 6)] =
     \<lparr>curve = curveCardinal,
      points = [(Finite 1, Finite 2), (Finite 8, Finite 14), (Finite 15, Finite 26)]\<rparr>"
  using wavy_path_waypoints [of "[(1, 2), (3, 4), (5, 6)]" 2 "node_at 0 0" "node_at 10 20"]
  by (simp add: node_at_def multiSegmentWavyPathStable_def Let_def waypoint_def num_div_def
      numeral_3_eq_3)

text \<open>
  C9. With a single offset (\<open>segments = 0\<close>) the loop runs once and divides \<open>0\<close> by
  \<open>0\<close>: the one waypoint has no finite coordinate, and it is still handed to the
  cardinal curve. The path is not a straight or single-point line between the source at
  \<open>(0, 0)\<close> and the target at \<open>(10, 20)\<close>.
\<close>

theorem single_offset_path:
  "multiSegmentWavyPathStable (node_at 0 0) (node_at 10 20) [(1, 2)] =
     \<lparr>curve = curveCardinal, points = [(NotFinite, NotFinite)]\<rparr>"
  by (simp add: multiSegmentWavyPathStable_def Let_def waypoint_def num_div_def)

section \<open>Links and their offsets\<close>

lemma length_random_offsets: "length (random_offsets rnd k c) = k"
  by (induction k arbitrary: c) simp_all

lemma length_attach_offsets: "length (attach_offsets rnd segments ls c) = length ls"
  by (induction ls arbitrary: c) (simp_all add: Let_def)

lemma attach_offsets_length:
  "l \<in> set (attach_offsets rnd segments ls c) \<Longrightarrow>
   length (segmentOffsets l) = nat (segments + 1)"
  by (induction ls arbitrary: c) (auto simp: Let_def length_random_offsets)

lemma length_build_links: "length (build_links ns) = length ns"
  by (simp add: build_links_def Let_def)

lemma build_links_nth:
  "i < length ns \<Longrightarrow> build_links ns ! i = \<lparr>source = i, target = (i + 1) mod length ns\<rparr>"
  by (simp add: build_links_def Let_def)

lemma links_start:
  "links (start cfg ns rnd) = attach_offsets rnd (numSegments cfg) (build_links ns) 0"
  by (simp add: start_def Let_def)

lemma links_tick: "links (tick d3 cfg s) = links s"
  by (simp add: tick_def Let_def)

lemma links_ticked: "links (ticked cfg s) = links s"
  by (simp add: ticked_def)

lemma links_timer_step: "links (timer_step d3 cfg s) = links s"
  by (simp add: timer_step_def Let_def links_ticked links_tick)

lemma links_on_drag: "links (on_drag e d s) = links s"
  by (cases e) simp_all

lemma links_step: "links (step d3 cfg e s) = links s"
  by (cases e) (simp_all add: links_timer_step links_on_drag)

lemma links_run: "links (run d3 cfg es s) = links s"
  by (induction es arbitrary: s) (simp_all add: links_step)

text \<open>
  C4. With \<open>numSegments \<ge> 0\<close>, in every state \<open>s\<close> reached from \<open>start\<close> by ticks and
  drag events each link has \<open>numSegments + 1\<close> offsets, these are the offsets generated
  when the links were built, and one more step (the forces, the integration and the
  regeneration of the paths by \<open>ticked\<close>, or a drag event) leaves them as they are.
\<close>

theorem segmentOffsets_stable:
  assumes "0 \<le> numSegments cfg" and "s = run d3 cfg es (start cfg ns rnd)"
  shows "length (links s) = length ns \<and>
         (\<forall>l \<in> set (links s). int (length (segmentOffsets l)) = numSegments cfg + 1) \<and>
         map segmentOffsets (links s) = map segmentOffsets (links (start cfg ns rnd)) \<and>
         map segmentOffsets (links (step d3 cfg e s)) = map segmentOffsets (links s)"
proof -
  have l: "links s = attach_offsets rnd (numSegments cfg) (build_links ns) 0"
    using assms(2) by (simp add: links_run links_start)
  have a: "length (links s) = length ns"
    by (simp add: l length_attach_offsets length_build_links)
  have b: "\<forall>l \<in> set (links s). int (length (segmentOffsets l)) = numSegments cfg + 1"
    using assms(1) by (simp add: l attach_offsets_length)
  have c: "map segmentOffsets (links s) = map segmentOffsets (links (start cfg ns rnd))"
    by (simp add: l links_start)
  have d: "map segmentOffsets (links (step d3 cfg e s)) = map segmentOffsets (links s)"
    by (simp add: links_step)
  from a b c d show ?thesis by blast
qed

theorem segmentOffsets_stable_witness:
  "0 \<le> numSegments config \<and>
   length (links (run inert_d3 config [Tick, Drag (DragMove 0 0) 2, Tick, Drag DragEnd 2]
      (start config placeholderData steady_random))) = length placeholderData \<and>
   int (length (segmentOffsets
      (links (run inert_d3 config [Tick, Drag (DragMove 0 0) 2, Tick, Drag DragEnd 2]
         (start config placeholderData steady_random)) ! 0))) = 7 \<and>
   map segmentOffsets
     (links (run inert_d3 config [Tick, Drag (DragMove 0 0) 2, Tick, Drag DragEnd 2]
        (start config placeholderData steady_random))) =
     map segmentOffsets (links (start config placeholderData steady_random)) \<and>
   map segmentOffsets (links (step inert_d3 config Tick
     (run inert_d3 config [Tick, Drag (DragMove 0 0) 2, Tick, Drag DragEnd 2]
        (start config placeholderData steady_random)))) =
     map segmentOffsets
       (links (run inert_d3 config [Tick, Drag (DragMove 0 0) 2, Tick, Drag DragEnd 2]
          (start config placeholderData steady_random)))"
proof -
  let ?s = "run inert_d3 config [Tick, Drag (DragMove 0 0) 2, Tick, Drag DragEnd 2]
      (start config placeholderData steady_random)"
  have h: "0 \<le> numSegments config" by (simp add: config_def)
  have n: "numSegments config + 1 = 7" by (simp add: config_def)
  note t = segmentOffsets_stable [OF h refl, of inert_d3
        "[Tick, Drag (DragMove 0 0) 2, Tick, Drag DragEnd 2]" placeholderData steady_random Tick]
  have len: "length (links ?s) = length placeholderData"
    using t by blast
  have "0 < length placeholderData"
    by (simp add: placeholderData_def)
  then have "0 < length (links ?s)"
    by (simp only: len)
  then have m: "links ?s ! 0 \<in> set (links ?s)"
    by (rule nth_mem)
  have first: "int (length (segmentOffsets (links ?s ! 0))) = 7"
    using t m unfolding n by blast
  from h t first show ?thesis by blast
qed

text \<open>
  C6, as the claim states it, fails: for a single node the ring formula gives one link,
  from node \<open>0\<close> to node \<open>(0 + 1) mod 1 = 0\<close>, and \<open>start\<close> keeps it.
\<close>

theorem single_node_self_link:
  "length single_node \<le> 1 \<and> build_links single_node \<noteq> [] \<and>
   build_links single_node = [\<lparr>source = 0, target = 0\<rparr>] \<and>
   length (links (start config single_node steady_random)) = 1"
  by (simp add: single_node_def build_links_def Let_def links_start length_attach_offsets)

text \<open>
  C6, amended. Link synthesis gives exactly one link per node, link \<open>i\<close> going from node
  \<open>i\<close> to node \<open>(i + 1) mod n\<close>: no link for \<open>n = 0\<close>, and for \<open>n = 1\<close> the link from node
  \<open>0\<close> to itself.
\<close>

theorem ring_links:
  "length (build_links ns) = length ns \<and>
   (\<forall>i < length ns. build_links ns ! i = \<lparr>source = i, target = (i + 1) mod length ns\<rparr>)"
  by (simp add: length_build_links build_links_nth)

theorem ring_links_witness:
  "build_links ([] :: NodeData list) = [] \<and>
   length (build_links single_node) = 1 \<and>
   build_links single_node ! 0 = \<lparr>source = 0, target = 0\<rparr> \<and>
   length (build_links placeholderData) = 5 \<and>
   build_links placeholderData ! 3 = \<lparr>source = 3, target = 4\<rparr> \<and>
   build_links placeholderData ! 4 = \<lparr>source = 4, target = 0\<rparr>"
proof -
  have e: "build_links ([] :: NodeData list) = []"
    using ring_links [of "[] :: NodeData list"] by simp
  have one: "length (build_links single_node) = 1 \<and>
      build_links single_node ! 0 = \<lparr>source = 0, target = 0\<rparr>"
    using ring_links [of single_node] by (simp add: single_node_def)
  have n: "length placeholderData = 5"
    by (simp add: placeholderData_def)
  have five: "length (build_links placeholderData) = 5 \<and>
      (\<forall>i < 5. build_links placeholderData ! i = \<lparr>source = i, target = (i + 1) mod 5\<rparr>)"
    using ring_links [of placeholderData] unfolding n .
  then have "build_links placeholderData ! 3 = \<lparr>source = 3, target = (3 + 1) mod 5\<rparr>"
    and "build_links placeholderData ! 4 = \<lparr>source = 4, target = (4 + 1) mod 5\<rparr>"
    by simp_all
  with e one five show ?thesis by simp
qed

section \<open>Starting the simulation\<close>

lemma length_nodes_start: "length (nodes (start cfg ns rnd)) = length ns"
  by (simp add: start_def Let_def forceSimulation_nodes_def initialize_positions_def)

lemma nodes_start_nth:
  "i < length ns \<Longrightarrow>
   nodes (start cfg ns rnd) ! i =
     \<lparr>node_id = node_id (ns ! i), title = title (ns ! i), image_href = image_href (ns ! i),
      x = fst (targets cfg ns ! i), y = snd (targets cfg ns ! i),
      vx = Some 0, vy = Some 0\<rparr>"
  by (simp add: start_def Let_def forceSimulation_nodes_def initialize_positions_def)

text \<open>
  C10. In the state that \<open>start\<close> returns, before any tick, the positions of the nodes
  are exactly the circular targets, node by node.
\<close>

theorem initial_positions_are_targets:
  "map (\<lambda>node. (x node, y node)) (nodes (start cfg ns rnd)) = targets cfg ns"
  by (rule nth_equalityI) (simp_all add: length_nodes_start length_targets nodes_start_nth)

text \<open>
  C5, as the claim states it, fails: with a radius factor and a node size of \<open>0\<close> and
  \<open>numSegments = -1\<close> (so a ring radius of \<open>0\<close>), \<open>start\<close> returns a running simulation
  of the five placeholder nodes.
\<close>

theorem invalid_config_starts:
  "radiusFactor invalid_config \<le> 0 \<and> nodeSize invalid_config \<le> 0 \<and>
   numSegments invalid_config < 0 \<and> radius invalid_config \<le> 0 \<and>
   running (start invalid_config placeholderData steady_random) \<and>
   alpha (start invalid_config placeholderData steady_random) = 1 \<and>
   length (nodes (start invalid_config placeholderData steady_random)) = 5"
  by (simp add: invalid_config_def radius_def start_def Let_def forceSimulation_nodes_def
      initialize_positions_def placeholderData_def)

text \<open>
  C5, amended. \<open>start\<close> checks nothing: for every configuration, whatever its radius
  factor, node size and number of segments, it returns a running simulation with
  \<open>alpha = 1\<close> and \<open>alphaTarget = 0\<close>, one node per data entry and one link per node.
\<close>

theorem start_without_validation:
  "running (start cfg ns rnd) \<and> alpha (start cfg ns rnd) = 1 \<and>
   alphaTarget (start cfg ns rnd) = 0 \<and>
   length (nodes (start cfg ns rnd)) = length ns \<and>
   length (links (start cfg ns rnd)) = length ns"
  by (simp add: length_nodes_start links_start length_attach_offsets length_build_links)
    (simp add: start_def Let_def)

section \<open>Dragging\<close>

text \<open>
  C7. No listener is registered for the \<open>start\<close> event of the drag behaviour: after a
  drag-start on node \<open>n2\<close> of the freshly started simulation \<open>alphaTarget\<close> is still \<open>0\<close>,
  not above it.
\<close>

theorem drag_start_keeps_alphaTarget:
  "alphaTarget (start config placeholderData steady_random) = 0 \<and>
   alphaTarget (on_drag DragStart 2 (start config placeholderData steady_random)) = 0"
  by (simp add: start_def Let_def)




end
